theory Spec2Isabelle
  imports Complex_Main "HOL-Library.Word"
begin

section \<open>Structured values\<close>

text \<open>
  Modelled from the spec: \<^verbatim>\<open>json.hpp\<close> (\<^verbatim>\<open>json::JsonValue\<close>, \<^verbatim>\<open>json::JsonObject\<close>) is
  included by \<^verbatim>\<open>env.hpp\<close> but is not among the sources. The spec calls it a structured
  value store: a key/value document type of nested objects, numbers, strings and lists.
  \<^verbatim>\<open>env.hpp\<close> uses of it: the member map \<^verbatim>\<open>.obj\<close> (with \<^verbatim>\<open>find\<close>, \<^verbatim>\<open>end\<close> and
  \<^verbatim>\<open>operator[]\<close> of \<^verbatim>\<open>std::map\<close>), the tests \<^verbatim>\<open>is_obj()\<close> and \<^verbatim>\<open>is_num()\<close>, the
  constructors from \<^verbatim>\<open>JsonObject {}\<close> and from a value of the template type \<^verbatim>\<open>T\<close>, the
  subscript \<^verbatim>\<open>value[name]\<close> and the conversion \<^verbatim>\<open>(T)value\<close>. The type of numbers is the
  parameter \<open>'n\<close>.
\<close>

datatype 'n JsonValue =
    JNull
  | JBool bool
  | JNum 'n
  | JStr string
  | JObj "string \<Rightarrow> 'n JsonValue option"
  | JArr "'n JsonValue list"

text \<open>
  Modelled from the spec: the type tests \<^verbatim>\<open>is_obj()\<close> and \<^verbatim>\<open>is_num()\<close> of
  \<^verbatim>\<open>json.hpp\<close>: whether the value is a nested object, whether it is a number.
\<close>

fun is_obj :: "'n JsonValue \<Rightarrow> bool" where
  "is_obj (JObj m) = True"
| "is_obj v = False"

fun is_num :: "'n JsonValue \<Rightarrow> bool" where
  "is_num (JNum x) = True"
| "is_num v = False"

text \<open>
  Modelled from the spec: the member map \<^verbatim>\<open>.obj\<close> of a value of \<^verbatim>\<open>json.hpp\<close>, the
  nested mapping from name to value; a value that is not an object has no members.
\<close>

fun obj :: "'n JsonValue \<Rightarrow> (string \<rightharpoonup> 'n JsonValue)" where
  "obj (JObj m) = m"
| "obj v = Map.empty"

text \<open>
  Modelled from the spec: storing a new member map through \<^verbatim>\<open>value.obj\<close>. \<^verbatim>\<open>env.hpp\<close>
  does so only on the reference returned by \<^verbatim>\<open>get_aspect_cfg\<close> or
  \<^verbatim>\<open>get_aspect_report\<close>, which is an object.
\<close>

fun set_obj :: "'n JsonValue \<Rightarrow> (string \<rightharpoonup> 'n JsonValue) \<Rightarrow> 'n JsonValue" where
  "set_obj (JObj m) m' = JObj m'"
| "set_obj v m' = v"

text \<open>
  \<^verbatim>\<open>std::map::operator[]\<close>: the value stored under the key; an absent key is first
  inserted with a default-constructed value (\<^verbatim>\<open>JsonValue()\<close>, the null value).
\<close>

definition map_subscript ::
  "(string \<rightharpoonup> 'n JsonValue) \<Rightarrow> string \<Rightarrow> 'n JsonValue \<times> (string \<rightharpoonup> 'n JsonValue)" where
  "map_subscript m k =
     (case m k of
        Some v \<Rightarrow> (v, m)
      | None \<Rightarrow> (JNull, m(k \<mapsto> JNull)))"

section \<open>The environment\<close>

text \<open>
  The fields of \<^verbatim>\<open>class Environment\<close> that the aspect lifecycle and the two stores use.
  \<^verbatim>\<open>cfg_\<close> and \<^verbatim>\<open>report_\<close> are read and written through their member map \<^verbatim>\<open>.obj\<close>
  only, so the record holds that map: aspect name to sub-document. A field name cannot end
  in an underscore here, so \<^verbatim>\<open>cfg_\<close> is \<open>cfg\<close>, and likewise for the others.
\<close>

record 'n Environment =
  aspects_started :: "string set"
  cur_aspect :: string
  cfg :: "string \<rightharpoonup> 'n JsonValue"
  report :: "string \<rightharpoonup> 'n JsonValue"

text \<open>
  \<^verbatim>\<open>get_aspect_cfg\<close> and \<^verbatim>\<open>get_aspect_report\<close> return a reference into the document; the
  model returns the referenced value together with the environment after the call.
\<close>

definition get_aspect_cfg :: "string \<Rightarrow> 'n Environment \<Rightarrow> 'n JsonValue \<times> 'n Environment" where
  "get_aspect_cfg aspect env =
     (let invalid = (case cfg env aspect of None \<Rightarrow> True | Some v \<Rightarrow> \<not> is_obj v);
          env1 = (if invalid then env\<lparr>cfg := (cfg env)(aspect \<mapsto> JObj Map.empty)\<rparr> else env);
          (v, m) = map_subscript (cfg env1) aspect
      in (v, env1\<lparr>cfg := m\<rparr>))"

definition get_cfg :: "'n Environment \<Rightarrow> 'n JsonValue \<times> 'n Environment" where
  "get_cfg env = get_aspect_cfg (cur_aspect env) env"

definition get_aspect_report :: "string \<Rightarrow> 'n Environment \<Rightarrow> 'n JsonValue \<times> 'n Environment" where
  "get_aspect_report aspect env =
     (let invalid = (case report env aspect of None \<Rightarrow> True | Some v \<Rightarrow> \<not> is_obj v);
          env1 = (if invalid then env\<lparr>report := (report env)(aspect \<mapsto> JObj Map.empty)\<rparr> else env);
          (v, m) = map_subscript (report env1) aspect
      in (v, env1\<lparr>report := m\<rparr>))"

definition get_report :: "'n Environment \<Rightarrow> 'n JsonValue \<times> 'n Environment" where
  "get_report env = get_aspect_report (cur_aspect env) env"

section \<open>Errors\<close>

text \<open>
  The failures of the environment, under the names of the spec's taxonomy. A failed
  \<^verbatim>\<open>archprobe::assert\<close> in \<^verbatim>\<open>must_get_aspect_report\<close> is the spec's
  \<open>MissingReportError\<close> (\<^verbatim>\<open>assert.hpp\<close> is not among the sources). \<open>JsonException\<close> is the
  failure of the subscript of a structured value.
\<close>

datatype error =
    DuplicateAspectError
  | MissingDependencyError
  | MissingReportError
  | CalibrationError
  | JsonException

text \<open>
  Modelled from the spec: \<^verbatim>\<open>JsonValue::operator[]\<close> of \<^verbatim>\<open>json.hpp\<close> with a key: the
  member of an object under that name. It fails on a value that is not an object and on a
  key the object does not hold. \<^verbatim>\<open>cfg_num\<close> applies it to an object that holds the key.
\<close>

definition json_subscript :: "'n JsonValue \<Rightarrow> string \<Rightarrow> error + 'n JsonValue" where
  "json_subscript v k =
     (case v of
        JObj m \<Rightarrow> (case m k of Some x \<Rightarrow> Inr x | None \<Rightarrow> Inl JsonException)
      | _ \<Rightarrow> Inl JsonException)"

section \<open>Iterators\<close>

text \<open>
  An iterator of a \<^verbatim>\<open>std::map\<close> is a position in one map object: at the entry of a key, or
  past the end. The map objects of a document are the document's own map
  (\<^verbatim>\<open>cfg_.obj\<close>) and the member map of the sub-document of each aspect
  (\<^verbatim>\<open>cfg_.obj[aspect].obj\<close>). Two iterators are equal when they are the same position of
  the same map object. Positions of different map objects are never equal: C++ gives
  their comparison no meaning, and the implementations of \<^verbatim>\<open>std::map\<close> compare the
  addresses of nodes, which two map objects do not share.
\<close>

datatype container = Document | Member string

datatype iterator = It_end container | It_at container string

definition map_find :: "container \<Rightarrow> (string \<rightharpoonup> 'v) \<Rightarrow> string \<Rightarrow> iterator" where
  "map_find c m k = (case m k of None \<Rightarrow> It_end c | Some v \<Rightarrow> It_at c k)"

section \<open>The configuration store\<close>

text \<open>
  \<^verbatim>\<open>cfg_num<T>(name, default_value)\<close>. The parameters \<open>ctor\<close> and \<open>cast\<close> are the
  constructor \<^verbatim>\<open>json::JsonValue(default_value)\<close> and the conversion \<^verbatim>\<open>(T)value\<close> of
  \<^verbatim>\<open>json.hpp\<close>. The source compares \<^verbatim>\<open>cfg.obj.find(name)\<close>, an iterator of the
  aspect's member map, with \<^verbatim>\<open>cfg_.obj.end()\<close>, the end of the document's own map. The
  right operand of \<^verbatim>\<open>||\<close> is evaluated only when the left one is false, and its
  \<^verbatim>\<open>cfg.obj[name]\<close> inserts a null value under an absent key.
\<close>

definition cfg_num ::
  "('t \<Rightarrow> 'n JsonValue) \<Rightarrow> ('n JsonValue \<Rightarrow> 't) \<Rightarrow> string \<Rightarrow> 't \<Rightarrow> 'n Environment
     \<Rightarrow> error + ('t \<times> 'n Environment)" where
  "cfg_num ctor cast name default_value env =
     (let (c, env1) = get_cfg env;
          aspect = cur_aspect env1;
          (invalid, c1) =
            (if map_find (Member aspect) (obj c) name = It_end Document then (True, c)
             else (let (v, m) = map_subscript (obj c) name in (\<not> is_num v, set_obj c m)));
          c2 = (if invalid then set_obj c1 ((obj c1)(name \<mapsto> ctor default_value)) else c1);
          env2 = env1\<lparr>cfg := (cfg env1)(aspect \<mapsto> c2)\<rparr>
      in case json_subscript c2 name of
           Inl e \<Rightarrow> Inl e
         | Inr v \<Rightarrow> Inr (cast v, env2))"

section \<open>The report store\<close>

text \<open>
  \<^verbatim>\<open>try_get_aspect_report<T>(aspect, name, out)\<close>: the result is the returned flag, the
  value of \<^verbatim>\<open>out\<close> after the call and the environment after the call.
\<close>

definition try_get_aspect_report ::
  "('n JsonValue \<Rightarrow> 't) \<Rightarrow> string \<Rightarrow> string \<Rightarrow> 't \<Rightarrow> 'n Environment
     \<Rightarrow> bool \<times> 't \<times> 'n Environment" where
  "try_get_aspect_report cast aspect name out env =
     (let (r, env1) = get_aspect_report aspect env
      in case obj r name of
           None \<Rightarrow> (False, out, env1)
         | Some v \<Rightarrow> (True, cast v, env1))"

definition try_get_report ::
  "('n JsonValue \<Rightarrow> 't) \<Rightarrow> string \<Rightarrow> 't \<Rightarrow> 'n Environment \<Rightarrow> bool \<times> 't \<times> 'n Environment" where
  "try_get_report cast name out env = try_get_aspect_report cast (cur_aspect env) name out env"

text \<open>
  \<^verbatim>\<open>must_get_aspect_report<T>(aspect, name)\<close>. The local \<^verbatim>\<open>T out;\<close> is not initialised
  by the source; \<open>out0\<close> is the value it happens to hold.
\<close>

definition must_get_aspect_report ::
  "('n JsonValue \<Rightarrow> 't) \<Rightarrow> 't \<Rightarrow> string \<Rightarrow> string \<Rightarrow> 'n Environment
     \<Rightarrow> error + ('t \<times> 'n Environment)" where
  "must_get_aspect_report cast out0 aspect name env =
     (let (ok, out, env1) = try_get_aspect_report cast aspect name out0 env
      in if ok then Inr (out, env1) else Inl MissingReportError)"

definition report_value ::
  "('t \<Rightarrow> 'n JsonValue) \<Rightarrow> string \<Rightarrow> 't \<Rightarrow> 'n Environment \<Rightarrow> 'n Environment" where
  "report_value ctor name v env =
     (let (r, env1) = get_report env
      in env1\<lparr>report := (report env1)(cur_aspect env1 \<mapsto> set_obj r ((obj r)(name \<mapsto> ctor v)))\<rparr>)"

definition clear_aspect_report :: "string \<Rightarrow> 'n Environment \<Rightarrow> 'n Environment" where
  "clear_aspect_report aspect env =
     (if aspect \<noteq> [] then
        (let (r, env1) = get_aspect_report aspect env
         in env1\<lparr>report := (report env1)(aspect \<mapsto> JObj Map.empty)\<rparr>)
      else env)"

text \<open>
  Modelled from the spec: the entry of a key in the sub-document of an aspect, as the
  documents are described, a mapping from aspect name to a nested mapping from name to
  value. An aspect that is absent, or whose entry is not an object, has no entries. The
  properties below are stated with it.
\<close>

definition entry :: "(string \<rightharpoonup> 'n JsonValue) \<Rightarrow> string \<Rightarrow> string \<Rightarrow> 'n JsonValue option" where
  "entry doc aspect name = (case doc aspect of None \<Rightarrow> None | Some v \<Rightarrow> obj v name)"

section \<open>The aspect lifecycle\<close>

text \<open>
  Modelled from the spec: the constructor of \<^verbatim>\<open>Environment\<close> is declared in
  \<^verbatim>\<open>env.hpp\<close> and defined in \<^verbatim>\<open>env.cpp\<close>, which is not among the sources. The spec:
  the two documents are loaded once at construction; the started-set is empty and the
  cursor is empty.
\<close>

definition Environment_init ::
  "(string \<rightharpoonup> 'n JsonValue) \<Rightarrow> (string \<rightharpoonup> 'n JsonValue) \<Rightarrow> 'n Environment" where
  "Environment_init c r = \<lparr>aspects_started = {}, cur_aspect = [], cfg = c, report = r\<rparr>"

text \<open>
  Modelled from the spec: \<^verbatim>\<open>report_started\<close> is declared in \<^verbatim>\<open>env.hpp\<close> and defined in
  \<^verbatim>\<open>env.cpp\<close>, which is not among the sources. The spec: it records the name in the
  started-set and sets it as the current aspect cursor; it fails with a
  \<open>DuplicateAspectError\<close> if the aspect was already started in this run.
\<close>

definition report_started :: "string \<Rightarrow> 'n Environment \<Rightarrow> error + 'n Environment" where
  "report_started aspect_name env =
     (if aspect_name \<in> aspects_started env then Inl DuplicateAspectError
      else Inr (env\<lparr>aspects_started := insert aspect_name (aspects_started env),
                    cur_aspect := aspect_name\<rparr>))"

text \<open>
  Modelled from the spec: a complete report of an aspect is a sub-document of the report
  document that holds the boolean true under the reserved key \<open>Done\<close>; an absent report
  and one without the key or with false under it are not complete.
\<close>

definition report_complete :: "(string \<rightharpoonup> 'n JsonValue) \<Rightarrow> string \<Rightarrow> bool" where
  "report_complete doc aspect_name =
     (case entry doc aspect_name ''Done'' of
        Some (JBool b) \<Rightarrow> b
      | _ \<Rightarrow> False)"

text \<open>
  Modelled from the spec: \<^verbatim>\<open>report_started_lazy\<close> is declared in \<^verbatim>\<open>env.hpp\<close> and defined
  in \<^verbatim>\<open>env.cpp\<close>, which is not among the sources. The spec: the same transition as
  \<^verbatim>\<open>report_started\<close>, but it first checks the report document for the name; if a
  complete report already exists it returns the skip signal (true), and the must-run
  signal (false) otherwise. The comment at the declaration in \<^verbatim>\<open>env.hpp\<close> says the same
  of the result: false if there is no existing report about the aspect, or the report is
  not yet marked with \<open>Done\<close> true.
\<close>

definition report_started_lazy ::
  "string \<Rightarrow> 'n Environment \<Rightarrow> error + (bool \<times> 'n Environment)" where
  "report_started_lazy aspect_name env =
     (let skip = report_complete (report env) aspect_name
      in case report_started aspect_name env of
           Inl e \<Rightarrow> Inl e
         | Inr env1 \<Rightarrow> Inr (skip, env1))"

text \<open>
  Modelled from the spec: \<^verbatim>\<open>report_ready\<close> is declared in \<^verbatim>\<open>env.hpp\<close> and defined in
  \<^verbatim>\<open>env.cpp\<close>, which is not among the sources. The spec: it writes \<open>Done\<close> with the given
  boolean into the report sub-document of the current aspect, and does not clear the
  cursor. The write is the store's unconditional write, \<^verbatim>\<open>report_value\<close>.
\<close>

definition report_ready :: "bool \<Rightarrow> 'n Environment \<Rightarrow> 'n Environment" where
  "report_ready done env = report_value JBool ''Done'' done env"

text \<open>
  Modelled from the spec: \<^verbatim>\<open>check_dep\<close> is declared in \<^verbatim>\<open>env.hpp\<close> and defined in
  \<^verbatim>\<open>env.cpp\<close>, which is not among the sources. The spec: it fails with a
  \<open>MissingDependencyError\<close> if the name is not in the started-set.
\<close>

definition check_dep :: "string \<Rightarrow> 'n Environment \<Rightarrow> error + 'n Environment" where
  "check_dep aspect_name env =
     (if aspect_name \<in> aspects_started env then Inr env else Inl MissingDependencyError)"

text \<open>
  Modelled from the spec: the driver and the aspects are external collaborators. A run of
  the process is a sequence of calls of the environment's operations, starting at its
  construction; a failure is fatal and ends the run. The conversions of the store's
  operations are the identity here: values go in and out as structured values.
\<close>

datatype 'n call =
    Report_started string
  | Report_started_lazy string
  | Report_ready bool
  | Check_dep string
  | Cfg_num string "'n JsonValue"
  | Must_get_aspect_report string string
  | Report_value string "'n JsonValue"
  | Clear_aspect_report string

fun perform :: "'n call \<Rightarrow> 'n Environment \<Rightarrow> error + 'n Environment" where
  "perform (Report_started a) env = report_started a env"
| "perform (Report_started_lazy a) env =
     (case report_started_lazy a env of Inl e \<Rightarrow> Inl e | Inr (skip, env1) \<Rightarrow> Inr env1)"
| "perform (Report_ready done) env = Inr (report_ready done env)"
| "perform (Check_dep a) env = check_dep a env"
| "perform (Cfg_num name d) env =
     (case cfg_num (\<lambda>v. v) (\<lambda>v. v) name d env of Inl e \<Rightarrow> Inl e | Inr (v, env1) \<Rightarrow> Inr env1)"
| "perform (Must_get_aspect_report a name) env =
     (case must_get_aspect_report (\<lambda>v. v) JNull a name env of
        Inl e \<Rightarrow> Inl e
      | Inr (v, env1) \<Rightarrow> Inr env1)"
| "perform (Report_value name v) env = Inr (report_value (\<lambda>v. v) name v env)"
| "perform (Clear_aspect_report a) env = Inr (clear_aspect_report a env)"

fun run_calls :: "'n call list \<Rightarrow> 'n Environment \<Rightarrow> error + 'n Environment" where
  "run_calls [] env = Inr env"
| "run_calls (c # cs) env =
     (case perform c env of Inl e \<Rightarrow> Inl e | Inr env1 \<Rightarrow> run_calls cs env1)"

text \<open>
  Modelled from the spec: the aspect that a call puts into the started-set, if it
  succeeds. The two start operations name one, the other calls none.
\<close>

fun started_by :: "'n call \<Rightarrow> string set" where
  "started_by (Report_started a) = {a}"
| "started_by (Report_started_lazy a) = {a}"
| "started_by c = {}"

section \<open>The timing controller\<close>








section \<open>Self-healing reads of an aspect's sub-document\<close>

lemma get_aspect_cfg_eq:
  "get_aspect_cfg aspect env =
     (case cfg env aspect of
        Some (JObj m) \<Rightarrow> (JObj m, env)
      | _ \<Rightarrow> (JObj Map.empty, env\<lparr>cfg := (cfg env)(aspect \<mapsto> JObj Map.empty)\<rparr>))"
  by (simp add: get_aspect_cfg_def map_subscript_def Let_def
           split: option.split JsonValue.split)

lemma get_aspect_report_eq:
  "get_aspect_report aspect env =
     (case report env aspect of
        Some (JObj m) \<Rightarrow> (JObj m, env)
      | _ \<Rightarrow> (JObj Map.empty, env\<lparr>report := (report env)(aspect \<mapsto> JObj Map.empty)\<rparr>))"
  by (simp add: get_aspect_report_def map_subscript_def Let_def
           split: option.split JsonValue.split)

lemma get_cfg_eq:
  "get_cfg env =
     (case cfg env (cur_aspect env) of
        Some (JObj m) \<Rightarrow> (JObj m, env)
      | _ \<Rightarrow> (JObj Map.empty, env\<lparr>cfg := (cfg env)(cur_aspect env \<mapsto> JObj Map.empty)\<rparr>))"
  by (simp add: get_cfg_def get_aspect_cfg_eq)

text \<open>
  C6. For every aspect name, after \<^verbatim>\<open>get_aspect_cfg\<close> (and likewise
  \<^verbatim>\<open>get_aspect_report\<close>) the entry stored under the aspect in the configuration (report)
  document is an object, and it is the value returned. An entry that was an object is
  returned as it was and the environment is unchanged. An entry that was absent or not an
  object is replaced in place by the empty object. The entries of all other aspects, the
  other document, the cursor and the started-set are as before.
\<close>

theorem get_aspect_self_healing:
  "(\<exists>c env'.
      get_aspect_cfg aspect env = (c, env') \<and> is_obj c \<and> cfg env' aspect = Some c \<and>
      (case cfg env aspect of
         Some (JObj m) \<Rightarrow> c = JObj m \<and> env' = env
       | _ \<Rightarrow> c = JObj Map.empty) \<and>
      (\<forall>a. a \<noteq> aspect \<longrightarrow> cfg env' a = cfg env a) \<and>
      report env' = report env \<and> cur_aspect env' = cur_aspect env \<and>
      aspects_started env' = aspects_started env) \<and>
   (\<exists>r env'.
      get_aspect_report aspect env = (r, env') \<and> is_obj r \<and> report env' aspect = Some r \<and>
      (case report env aspect of
         Some (JObj m) \<Rightarrow> r = JObj m \<and> env' = env
       | _ \<Rightarrow> r = JObj Map.empty) \<and>
      (\<forall>a. a \<noteq> aspect \<longrightarrow> report env' a = report env a) \<and>
      cfg env' = cfg env \<and> cur_aspect env' = cur_aspect env \<and>
      aspects_started env' = aspects_started env)"
proof (rule conjI)
  show "\<exists>c env'.
      get_aspect_cfg aspect env = (c, env') \<and> is_obj c \<and> cfg env' aspect = Some c \<and>
      (case cfg env aspect of
         Some (JObj m) \<Rightarrow> c = JObj m \<and> env' = env
       | _ \<Rightarrow> c = JObj Map.empty) \<and>
      (\<forall>a. a \<noteq> aspect \<longrightarrow> cfg env' a = cfg env a) \<and>
      report env' = report env \<and> cur_aspect env' = cur_aspect env \<and>
      aspects_started env' = aspects_started env"
    by (simp add: get_aspect_cfg_eq split: option.split JsonValue.split)
next
  show "\<exists>r env'.
      get_aspect_report aspect env = (r, env') \<and> is_obj r \<and> report env' aspect = Some r \<and>
      (case report env aspect of
         Some (JObj m) \<Rightarrow> r = JObj m \<and> env' = env
       | _ \<Rightarrow> r = JObj Map.empty) \<and>
      (\<forall>a. a \<noteq> aspect \<longrightarrow> report env' a = report env a) \<and>
      cfg env' = cfg env \<and> cur_aspect env' = cur_aspect env \<and>
      aspects_started env' = aspects_started env"
    by (simp add: get_aspect_report_eq split: option.split JsonValue.split)
qed

theorem get_aspect_self_healing_witness:
  "get_aspect_cfg ''x''
     \<lparr>aspects_started = {}, cur_aspect = [], cfg = [''x'' \<mapsto> JNum (3::int)],
      report = [''y'' \<mapsto> JObj [''Done'' \<mapsto> JBool True]]\<rparr>
   = (JObj Map.empty,
      \<lparr>aspects_started = {}, cur_aspect = [], cfg = [''x'' \<mapsto> JObj Map.empty],
       report = [''y'' \<mapsto> JObj [''Done'' \<mapsto> JBool True]]\<rparr>) \<and>
   get_aspect_report ''y''
     \<lparr>aspects_started = {}, cur_aspect = [], cfg = [''x'' \<mapsto> JNum (3::int)],
      report = [''y'' \<mapsto> JObj [''Done'' \<mapsto> JBool True]]\<rparr>
   = (JObj [''Done'' \<mapsto> JBool True],
      \<lparr>aspects_started = {}, cur_aspect = [], cfg = [''x'' \<mapsto> JNum (3::int)],
       report = [''y'' \<mapsto> JObj [''Done'' \<mapsto> JBool True]]\<rparr>)"
  using get_aspect_self_healing [of "''x''"
     "\<lparr>aspects_started = {}, cur_aspect = [], cfg = [''x'' \<mapsto> JNum (3::int)],
      report = [''y'' \<mapsto> JObj [''Done'' \<mapsto> JBool True]]\<rparr>"]
    get_aspect_self_healing [of "''y''"
     "\<lparr>aspects_started = {}, cur_aspect = [], cfg = [''x'' \<mapsto> JNum (3::int)],
      report = [''y'' \<mapsto> JObj [''Done'' \<mapsto> JBool True]]\<rparr>"]
  by (simp add: get_aspect_cfg_eq get_aspect_report_eq)

section \<open>Numbers of the configuration\<close>

lemma cfg_num_eq:
  "cfg_num ctor cast name d env =
     (case entry (cfg env) (cur_aspect env) name of
        Some (JNum x) \<Rightarrow> Inr (cast (JNum x), env)
      | _ \<Rightarrow> Inr (cast (ctor d),
                 env\<lparr>cfg := (cfg env)(cur_aspect env \<mapsto>
                   JObj ((obj (case cfg env (cur_aspect env) of Some v \<Rightarrow> v | None \<Rightarrow> JNull))(name \<mapsto> ctor d)))\<rparr>))"
  apply (simp add: cfg_num_def get_cfg_eq entry_def map_find_def map_subscript_def json_subscript_def Let_def
        split: option.split JsonValue.split)
  apply (auto simp: fun_upd_idem)
  done

lemma entry_upd_same:
  "entry (doc(a \<mapsto> JObj (m(k \<mapsto> v)))) a k = Some v"
  by (simp add: entry_def)

lemma entry_upd_other:
  "(a', k') \<noteq> (a, k) \<Longrightarrow>
   entry (doc(a \<mapsto> JObj ((obj (case doc a of Some v \<Rightarrow> v | None \<Rightarrow> JNull))(k \<mapsto> v)))) a' k' = entry doc a' k'"
  by (auto simp: entry_def split: option.split)

text \<open>
  C1. For every current aspect, key name and default, \<^verbatim>\<open>cfg_num\<close> returns a value and
  never fails, and a second call with the same arguments returns the same value and leaves
  the environment exactly as the first call left it. When the key is present and numeric
  in the sub-document of the current aspect, the stored value is returned (through the
  conversion to \<^verbatim>\<open>T\<close>) and nothing is written. Otherwise the default is stored under the
  key and returned (as the conversion reads it back from the document). No other entry of
  the configuration document changes, nor does the report document, the cursor or the
  started-set.
\<close>

theorem cfg_num_idempotent:
  "\<exists>v env1.
     cfg_num ctor cast name d env = Inr (v, env1) \<and>
     cfg_num ctor cast name d env1 = Inr (v, env1) \<and>
     (case entry (cfg env) (cur_aspect env) name of
        Some (JNum x) \<Rightarrow> v = cast (JNum x) \<and> env1 = env
      | _ \<Rightarrow> v = cast (ctor d) \<and> entry (cfg env1) (cur_aspect env) name = Some (ctor d)) \<and>
     (\<forall>a k. (a, k) \<noteq> (cur_aspect env, name) \<longrightarrow> entry (cfg env1) a k = entry (cfg env) a k) \<and>
     report env1 = report env \<and> cur_aspect env1 = cur_aspect env \<and>
     aspects_started env1 = aspects_started env"
proof (cases "\<exists>x. entry (cfg env) (cur_aspect env) name = Some (JNum x)")
  case True
  then obtain x where x: "entry (cfg env) (cur_aspect env) name = Some (JNum x)" by blast
  then have "cfg_num ctor cast name d env = Inr (cast (JNum x), env)"
    by (simp add: cfg_num_eq)
  with x show ?thesis by simp
next
  case False
  define env1 where "env1 = env\<lparr>cfg := (cfg env)(cur_aspect env \<mapsto>
     JObj ((obj (case cfg env (cur_aspect env) of Some v \<Rightarrow> v | None \<Rightarrow> JNull))(name \<mapsto> ctor d)))\<rparr>"
  from False have first: "cfg_num ctor cast name d env = Inr (cast (ctor d), env1)"
    by (simp add: cfg_num_eq env1_def split: option.split JsonValue.split)
  have stored: "entry (cfg env1) (cur_aspect env1) name = Some (ctor d)"
    by (simp add: env1_def entry_upd_same)
  have again: "env1\<lparr>cfg := (cfg env1)(cur_aspect env1 \<mapsto>
     JObj ((obj (case cfg env1 (cur_aspect env1) of Some v \<Rightarrow> v | None \<Rightarrow> JNull))(name \<mapsto> ctor d)))\<rparr> = env1"
    by (simp add: env1_def)
  have second: "cfg_num ctor cast name d env1 = Inr (cast (ctor d), env1)"
  proof (cases "ctor d")
    case (JNum x)
    with stored show ?thesis by (simp add: cfg_num_eq)
  next
    case JNull
    with stored again show ?thesis by (simp add: cfg_num_eq)
  next
    case (JBool b)
    with stored again show ?thesis by (simp add: cfg_num_eq)
  next
    case (JStr s)
    with stored again show ?thesis by (simp add: cfg_num_eq)
  next
    case (JObj m)
    with stored again show ?thesis by (simp add: cfg_num_eq)
  next
    case (JArr xs)
    with stored again show ?thesis by (simp add: cfg_num_eq)
  qed
  have frame: "\<forall>a k. (a, k) \<noteq> (cur_aspect env, name) \<longrightarrow> entry (cfg env1) a k = entry (cfg env) a k"
    using entry_upd_other [of _ _ "cur_aspect env" name "cfg env" "ctor d"]
    by (simp add: env1_def)
  have rest: "report env1 = report env \<and> cur_aspect env1 = cur_aspect env \<and>
     aspects_started env1 = aspects_started env"
    by (simp add: env1_def)
  from False have shape: "(case entry (cfg env) (cur_aspect env) name of
        Some (JNum x) \<Rightarrow> cast (ctor d) = cast (JNum x) \<and> env1 = env
      | _ \<Rightarrow> cast (ctor d) = cast (ctor d) \<and> entry (cfg env1) (cur_aspect env) name = Some (ctor d))"
    using stored by (simp add: env1_def split: option.split JsonValue.split)
  from first second shape frame rest show ?thesis by blast
qed

theorem cfg_num_idempotent_witness:
  "cfg_num JNum (\<lambda>v. case v of JNum x \<Rightarrow> x | _ \<Rightarrow> 0) ''iters'' (100::int)
     \<lparr>aspects_started = {''x''}, cur_aspect = ''x'', cfg = Map.empty, report = Map.empty\<rparr>
   = Inr (100, \<lparr>aspects_started = {''x''}, cur_aspect = ''x'',
                cfg = [''x'' \<mapsto> JObj [''iters'' \<mapsto> JNum 100]], report = Map.empty\<rparr>) \<and>
   cfg_num JNum (\<lambda>v. case v of JNum x \<Rightarrow> x | _ \<Rightarrow> 0) ''iters'' (100::int)
     \<lparr>aspects_started = {''x''}, cur_aspect = ''x'',
      cfg = [''x'' \<mapsto> JObj [''iters'' \<mapsto> JNum 100]], report = Map.empty\<rparr>
   = Inr (100, \<lparr>aspects_started = {''x''}, cur_aspect = ''x'',
                cfg = [''x'' \<mapsto> JObj [''iters'' \<mapsto> JNum 100]], report = Map.empty\<rparr>)"
proof -
  let ?cast = "\<lambda>v. case v of JNum x \<Rightarrow> x | _ \<Rightarrow> (0::int)"
  let ?env = "\<lparr>aspects_started = {''x''}, cur_aspect = ''x'', cfg = Map.empty,
               report = (Map.empty :: string \<rightharpoonup> int JsonValue)\<rparr>"
  have first: "cfg_num JNum ?cast ''iters'' 100 ?env
     = Inr (100, \<lparr>aspects_started = {''x''}, cur_aspect = ''x'',
                cfg = [''x'' \<mapsto> JObj [''iters'' \<mapsto> JNum 100]], report = Map.empty\<rparr>)"
    by (simp add: cfg_num_def get_cfg_def get_aspect_cfg_def map_subscript_def map_find_def
          json_subscript_def)
  from cfg_num_idempotent [of JNum ?cast "''iters''" 100 ?env]
  obtain v env1 where
    "cfg_num JNum ?cast ''iters'' 100 ?env = Inr (v, env1)"
    "cfg_num JNum ?cast ''iters'' 100 env1 = Inr (v, env1)"
    by blast
  with first show ?thesis by simp
qed

section \<open>Reading results of the report\<close>

lemma try_get_aspect_report_eq:
  "try_get_aspect_report cast aspect name out env =
     (case entry (report env) aspect name of
        None \<Rightarrow> (False, out, snd (get_aspect_report aspect env))
      | Some v \<Rightarrow> (True, cast v, env))"
  by (simp add: try_get_aspect_report_def get_aspect_report_eq entry_def
           split: option.split JsonValue.split)

text \<open>
  C7. \<^verbatim>\<open>try_get_aspect_report\<close> returns true exactly when the key has an entry in the
  report sub-document of the aspect. Then \<^verbatim>\<open>out\<close> holds the conversion of the stored
  value and the environment is unchanged. When it returns false, \<^verbatim>\<open>out\<close> is as it was.
  In both cases the environment after the call is the one \<^verbatim>\<open>get_aspect_report\<close> leaves.
\<close>

theorem try_get_aspect_report_found:
  "\<exists>ok out' env'.
     try_get_aspect_report cast aspect name out env = (ok, out', env') \<and>
     (ok \<longleftrightarrow> entry (report env) aspect name \<noteq> None) \<and>
     (\<not> ok \<longrightarrow> out' = out) \<and>
     (\<forall>v. entry (report env) aspect name = Some v \<longrightarrow> out' = cast v \<and> env' = env) \<and>
     env' = snd (get_aspect_report aspect env)"
  by (simp add: try_get_aspect_report_eq get_aspect_report_eq entry_def
           split: option.split JsonValue.split)

theorem try_get_aspect_report_found_witness:
  "try_get_aspect_report (\<lambda>v. case v of JNum x \<Rightarrow> x | _ \<Rightarrow> 0) ''warp'' ''size'' (7::int)
     \<lparr>aspects_started = {}, cur_aspect = [], cfg = Map.empty,
      report = [''warp'' \<mapsto> JObj [''size'' \<mapsto> JNum 32]]\<rparr>
   = (True, 32, \<lparr>aspects_started = {}, cur_aspect = [], cfg = Map.empty,
      report = [''warp'' \<mapsto> JObj [''size'' \<mapsto> JNum 32]]\<rparr>) \<and>
   try_get_aspect_report (\<lambda>v. case v of JNum x \<Rightarrow> x | _ \<Rightarrow> 0) ''warp'' ''count'' (7::int)
     \<lparr>aspects_started = {}, cur_aspect = [], cfg = Map.empty,
      report = [''warp'' \<mapsto> JObj [''size'' \<mapsto> JNum 32]]\<rparr>
   = (False, 7, \<lparr>aspects_started = {}, cur_aspect = [], cfg = Map.empty,
      report = [''warp'' \<mapsto> JObj [''size'' \<mapsto> JNum 32]]\<rparr>)"
  using try_get_aspect_report_found [of "\<lambda>v. case v of JNum x \<Rightarrow> x | _ \<Rightarrow> 0" "''warp''" "''size''" 7
     "\<lparr>aspects_started = {}, cur_aspect = [], cfg = Map.empty,
      report = [''warp'' \<mapsto> JObj [''size'' \<mapsto> JNum 32]]\<rparr>"]
    try_get_aspect_report_found [of "\<lambda>v. case v of JNum x \<Rightarrow> x | _ \<Rightarrow> 0" "''warp''" "''count''" 7
     "\<lparr>aspects_started = {}, cur_aspect = [], cfg = Map.empty,
      report = [''warp'' \<mapsto> JObj [''size'' \<mapsto> JNum 32]]\<rparr>"]
  by (auto simp: entry_def get_aspect_report_eq)

text \<open>
  C8. \<^verbatim>\<open>must_get_aspect_report\<close> fails with \<open>MissingReportError\<close> exactly when the key
  has no entry in the report sub-document of the aspect, and it fails in no other way.
  When the key has an entry, it returns the conversion of the stored value, the value that
  \<^verbatim>\<open>try_get_aspect_report\<close> writes to \<^verbatim>\<open>out\<close> when it returns true.
\<close>

theorem must_get_aspect_report_missing:
  "(must_get_aspect_report cast out0 aspect name env = Inl MissingReportError
      \<longleftrightarrow> entry (report env) aspect name = None) \<and>
   (\<forall>v. entry (report env) aspect name = Some v \<longrightarrow>
      must_get_aspect_report cast out0 aspect name env = Inr (cast v, env) \<and>
      try_get_aspect_report cast aspect name out env = (True, cast v, env)) \<and>
   (\<forall>e. must_get_aspect_report cast out0 aspect name env = Inl e \<longrightarrow> e = MissingReportError)"
proof (cases "entry (report env) aspect name")
  case None
  then have "must_get_aspect_report cast out0 aspect name env = Inl MissingReportError"
    by (simp add: must_get_aspect_report_def try_get_aspect_report_eq)
  with None show ?thesis by simp
next
  case (Some v)
  then have found: "try_get_aspect_report cast aspect name out env = (True, cast v, env)"
    by (simp add: try_get_aspect_report_eq)
  from Some have "must_get_aspect_report cast out0 aspect name env = Inr (cast v, env)"
    by (simp add: must_get_aspect_report_def try_get_aspect_report_eq)
  with Some found show ?thesis by simp
qed

theorem must_get_aspect_report_missing_witness:
  "must_get_aspect_report (\<lambda>v. case v of JNum x \<Rightarrow> x | _ \<Rightarrow> 0) (7::int) ''warp'' ''size''
     \<lparr>aspects_started = {}, cur_aspect = [], cfg = Map.empty,
      report = [''warp'' \<mapsto> JObj [''size'' \<mapsto> JNum 32]]\<rparr>
   = Inr (32, \<lparr>aspects_started = {}, cur_aspect = [], cfg = Map.empty,
      report = [''warp'' \<mapsto> JObj [''size'' \<mapsto> JNum 32]]\<rparr>) \<and>
   must_get_aspect_report (\<lambda>v. case v of JNum x \<Rightarrow> x | _ \<Rightarrow> 0) (7::int) ''warp'' ''count''
     \<lparr>aspects_started = {}, cur_aspect = [], cfg = Map.empty,
      report = [''warp'' \<mapsto> JObj [''size'' \<mapsto> JNum 32]]\<rparr>
   = Inl MissingReportError"
  using must_get_aspect_report_missing [of "\<lambda>v. case v of JNum x \<Rightarrow> x | _ \<Rightarrow> 0" 7 "''warp''" "''size''"
     "\<lparr>aspects_started = {}, cur_aspect = [], cfg = Map.empty,
      report = [''warp'' \<mapsto> JObj [''size'' \<mapsto> JNum 32]]\<rparr>" 7]
    must_get_aspect_report_missing [of "\<lambda>v. case v of JNum x \<Rightarrow> x | _ \<Rightarrow> 0" 7 "''warp''" "''count''"
     "\<lparr>aspects_started = {}, cur_aspect = [], cfg = Map.empty,
      report = [''warp'' \<mapsto> JObj [''size'' \<mapsto> JNum 32]]\<rparr>" 7]
  by (auto simp: entry_def)

section \<open>Clearing a report\<close>

lemma clear_aspect_report_eq:
  "clear_aspect_report aspect env =
     (if aspect = [] then env
      else env\<lparr>report := (report env)(aspect \<mapsto> JObj Map.empty)\<rparr>)"
  by (simp add: clear_aspect_report_def get_aspect_report_eq split: option.split JsonValue.split)

text \<open>
  C10. \<^verbatim>\<open>clear_aspect_report\<close> with the empty string as aspect name leaves the
  environment unchanged: no entry is written and none is repaired. With a non-empty aspect
  name it sets the report sub-document of that aspect to the empty object and changes
  nothing else.
\<close>

theorem clear_aspect_report_effect:
  "clear_aspect_report [] env = env \<and>
   (aspect \<noteq> [] \<longrightarrow>
      clear_aspect_report aspect env = env\<lparr>report := (report env)(aspect \<mapsto> JObj Map.empty)\<rparr>)"
proof (intro conjI impI)
  show "clear_aspect_report [] env = env"
    by (simp add: clear_aspect_report_def)
next
  assume "aspect \<noteq> []"
  then show "clear_aspect_report aspect env
      = env\<lparr>report := (report env)(aspect \<mapsto> JObj Map.empty)\<rparr>"
    by (simp add: clear_aspect_report_eq)
qed

theorem clear_aspect_report_effect_witness:
  "clear_aspect_report ''warp''
     \<lparr>aspects_started = {}, cur_aspect = [], cfg = Map.empty,
      report = [''warp'' \<mapsto> JObj [''size'' \<mapsto> JNum (32::int)]]\<rparr>
   = \<lparr>aspects_started = {}, cur_aspect = [], cfg = Map.empty,
      report = [''warp'' \<mapsto> JObj Map.empty]\<rparr> \<and>
   clear_aspect_report []
     \<lparr>aspects_started = {}, cur_aspect = [], cfg = Map.empty,
      report = [''warp'' \<mapsto> JObj [''size'' \<mapsto> JNum (32::int)]]\<rparr>
   = \<lparr>aspects_started = {}, cur_aspect = [], cfg = Map.empty,
      report = [''warp'' \<mapsto> JObj [''size'' \<mapsto> JNum (32::int)]]\<rparr>"
  using clear_aspect_report_effect [of
     "\<lparr>aspects_started = {}, cur_aspect = [], cfg = Map.empty,
      report = [''warp'' \<mapsto> JObj [''size'' \<mapsto> JNum (32::int)]]\<rparr>" "''warp''"]
  by simp

section \<open>Starting and finishing an aspect\<close>

lemma report_value_eq:
  "report_value ctor name v env =
     env\<lparr>report := (report env)(cur_aspect env \<mapsto>
       JObj ((obj (case report env (cur_aspect env) of Some x \<Rightarrow> x | None \<Rightarrow> JNull))
               (name \<mapsto> ctor v)))\<rparr>"
  by (simp add: report_value_def get_report_def get_aspect_report_eq
           split: option.split JsonValue.split)

lemma started_by_mem:
  "a \<in> started_by c \<longleftrightarrow> c = Report_started a \<or> c = Report_started_lazy a"
  by (cases c) auto

lemma perform_started:
  "perform c env = Inr env' \<Longrightarrow> aspects_started env' = aspects_started env \<union> started_by c"
proof (cases c)
  case (Report_started a)
  then show "perform c env = Inr env' \<Longrightarrow> ?thesis"
    by (auto simp: report_started_def split: if_splits)
next
  case (Report_started_lazy a)
  then show "perform c env = Inr env' \<Longrightarrow> ?thesis"
    by (auto simp: report_started_lazy_def report_started_def split: if_splits)
next
  case (Report_ready d)
  then show "perform c env = Inr env' \<Longrightarrow> ?thesis"
    by (auto simp: report_ready_def report_value_eq)
next
  case (Check_dep a)
  then show "perform c env = Inr env' \<Longrightarrow> ?thesis"
    by (auto simp: check_dep_def split: if_splits)
next
  case (Cfg_num name d)
  then show "perform c env = Inr env' \<Longrightarrow> ?thesis"
    by (auto simp: cfg_num_eq split: option.splits JsonValue.splits)
next
  case (Must_get_aspect_report a name)
  then show "perform c env = Inr env' \<Longrightarrow> ?thesis"
    by (auto simp: must_get_aspect_report_def try_get_aspect_report_eq split: option.splits)
next
  case (Report_value name v)
  then show "perform c env = Inr env' \<Longrightarrow> ?thesis"
    by (auto simp: report_value_eq)
next
  case (Clear_aspect_report a)
  then show "perform c env = Inr env' \<Longrightarrow> ?thesis"
    by (auto simp: clear_aspect_report_eq split: if_splits)
qed

lemma run_calls_started:
  "run_calls cs env = Inr env' \<Longrightarrow>
   aspects_started env' = aspects_started env \<union> (\<Union>c \<in> set cs. started_by c)"
proof (induction cs arbitrary: env)
  case Nil
  then show ?case by simp
next
  case (Cons c cs)
  from Cons.prems obtain env1 where
    step: "perform c env = Inr env1" and rest: "run_calls cs env1 = Inr env'"
    by (auto split: sum.splits)
  from Cons.IH [OF rest] perform_started [OF step] show ?case by auto
qed

lemma started_by_iff:
  "a \<in> (\<Union>c \<in> set cs. started_by c) \<longleftrightarrow>
   Report_started a \<in> set cs \<or> Report_started_lazy a \<in> set cs"
  by (auto simp: started_by_mem)

text \<open>
  C5. \<^verbatim>\<open>report_started\<close> fails with \<open>DuplicateAspectError\<close> when the name is already in
  the started-set. Otherwise it adds the name to the started-set and makes it the current
  aspect, and changes neither document. Once it has succeeded for a name, it fails for
  that name for the rest of the run, whatever calls come between.
\<close>

theorem report_started_duplicate:
  "(aspect_name \<in> aspects_started (env :: 'n Environment) \<longrightarrow>
      report_started aspect_name env = Inl DuplicateAspectError) \<and>
   (aspect_name \<notin> aspects_started env \<longrightarrow>
      (\<exists>env'. report_started aspect_name env = Inr env' \<and>
         aspects_started env' = insert aspect_name (aspects_started env) \<and>
         cur_aspect env' = aspect_name \<and> cfg env' = cfg env \<and> report env' = report env)) \<and>
   (\<forall>cs (env1 :: 'n Environment) env2.
      report_started aspect_name env = Inr env1 \<and> run_calls cs env1 = Inr env2 \<longrightarrow>
      report_started aspect_name env2 = Inl DuplicateAspectError)"
proof (intro conjI allI impI)
  fix cs and env1 env2 :: "'n Environment"
  assume a: "report_started aspect_name env = Inr env1 \<and> run_calls cs env1 = Inr env2"
  then have "aspect_name \<in> aspects_started env1"
    by (auto simp: report_started_def split: if_splits)
  moreover from a have "aspects_started env2 = aspects_started env1 \<union> (\<Union>c \<in> set cs. started_by c)"
    by (simp add: run_calls_started)
  ultimately show "report_started aspect_name env2 = Inl DuplicateAspectError"
    by (simp add: report_started_def)
qed (simp_all add: report_started_def)

theorem report_started_duplicate_witness:
  "report_started ''x'' (Environment_init Map.empty (Map.empty :: string \<rightharpoonup> int JsonValue))
     = Inr \<lparr>aspects_started = {''x''}, cur_aspect = ''x'', cfg = Map.empty, report = Map.empty\<rparr> \<and>
   report_started ''x''
     \<lparr>aspects_started = {''x''}, cur_aspect = ''x'', cfg = Map.empty,
      report = (Map.empty :: string \<rightharpoonup> int JsonValue)\<rparr>
     = Inl DuplicateAspectError"
  using report_started_duplicate [of "''x''"
          "Environment_init Map.empty (Map.empty :: string \<rightharpoonup> int JsonValue)"]
        report_started_duplicate [of "''x''"
          "\<lparr>aspects_started = {''x''}, cur_aspect = ''x'', cfg = Map.empty,
            report = (Map.empty :: string \<rightharpoonup> int JsonValue)\<rparr>"]
  by (simp add: Environment_init_def report_started_def)

text \<open>
  C2. The call does not return a signal for every aspect: for an aspect already started
  in this run it fails with \<open>DuplicateAspectError\<close>, whatever the report document holds,
  since it makes the same transition as \<^verbatim>\<open>report_started\<close>. For an aspect not yet started
  in this run, \<^verbatim>\<open>report_started_lazy\<close> returns the skip signal (true) if the report
  document holds \<open>Done\<close> with true under the aspect, and the must-run signal (false) if
  \<open>Done\<close> is absent or false; the report document and the configuration document are as
  before the call, so nothing is written to the sub-document of the aspect, and the aspect
  is in the started-set and is the current aspect.
\<close>

theorem report_started_lazy_skip:
  "(aspect_name \<notin> aspects_started env \<longrightarrow>
      (\<exists>env'. report_started_lazy aspect_name env
                = Inr (report_complete (report env) aspect_name, env') \<and>
             report env' = report env \<and> cfg env' = cfg env \<and>
             aspects_started env' = insert aspect_name (aspects_started env) \<and>
             cur_aspect env' = aspect_name)) \<and>
   (aspect_name \<in> aspects_started env \<longrightarrow>
      report_started_lazy aspect_name env = Inl DuplicateAspectError) \<and>
   (report_complete (report env) aspect_name \<longleftrightarrow>
      entry (report env) aspect_name ''Done'' = Some (JBool True))"
proof (intro conjI impI)
  assume "aspect_name \<notin> aspects_started env"
  then show "\<exists>env'. report_started_lazy aspect_name env
                = Inr (report_complete (report env) aspect_name, env') \<and>
             report env' = report env \<and> cfg env' = cfg env \<and>
             aspects_started env' = insert aspect_name (aspects_started env) \<and>
             cur_aspect env' = aspect_name"
    by (simp add: report_started_lazy_def report_started_def)
next
  assume "aspect_name \<in> aspects_started env"
  then show "report_started_lazy aspect_name env = Inl DuplicateAspectError"
    by (simp add: report_started_lazy_def report_started_def)
next
  show "report_complete (report env) aspect_name \<longleftrightarrow>
      entry (report env) aspect_name ''Done'' = Some (JBool True)"
    by (auto simp: report_complete_def split: option.split JsonValue.split)
qed

theorem report_started_lazy_skip_witness:
  "report_started_lazy ''A''
     (Environment_init Map.empty [''A'' \<mapsto> JObj [''Done'' \<mapsto> JBool True, ''n'' \<mapsto> JNum (100::int)]])
     = Inr (True,
        \<lparr>aspects_started = {''A''}, cur_aspect = ''A'', cfg = Map.empty,
         report = [''A'' \<mapsto> JObj [''Done'' \<mapsto> JBool True, ''n'' \<mapsto> JNum 100]]\<rparr>) \<and>
   report_started_lazy ''A''
     (Environment_init Map.empty [''A'' \<mapsto> JObj [''Done'' \<mapsto> JBool False, ''n'' \<mapsto> JNum (100::int)]])
     = Inr (False,
        \<lparr>aspects_started = {''A''}, cur_aspect = ''A'', cfg = Map.empty,
         report = [''A'' \<mapsto> JObj [''Done'' \<mapsto> JBool False, ''n'' \<mapsto> JNum 100]]\<rparr>) \<and>
   report_started_lazy ''A''
     (Environment_init Map.empty [''A'' \<mapsto> JObj [''n'' \<mapsto> JNum (100::int)]])
     = Inr (False,
        \<lparr>aspects_started = {''A''}, cur_aspect = ''A'', cfg = Map.empty,
         report = [''A'' \<mapsto> JObj [''n'' \<mapsto> JNum 100]]\<rparr>) \<and>
   report_started_lazy ''A''
     \<lparr>aspects_started = {''A''}, cur_aspect = ''A'', cfg = Map.empty,
      report = [''A'' \<mapsto> JObj [''n'' \<mapsto> JNum (100::int)]]\<rparr>
     = Inl DuplicateAspectError"
proof -
  let ?done = "Environment_init Map.empty
      [''A'' \<mapsto> JObj [''Done'' \<mapsto> JBool True, ''n'' \<mapsto> JNum (100::int)]]"
  let ?started = "\<lparr>aspects_started = {''A''}, cur_aspect = ''A'', cfg = Map.empty,
      report = [''A'' \<mapsto> JObj [''n'' \<mapsto> JNum (100::int)]]\<rparr>"
  have fresh: "''A'' \<notin> aspects_started ?done" by (simp add: Environment_init_def)
  have complete: "report_complete (report ?done) ''A''"
    by (simp add: Environment_init_def report_complete_def entry_def)
  from report_started_lazy_skip [of "''A''" ?done] fresh complete
  obtain env' where
    "report_started_lazy ''A'' ?done = Inr (True, env')" "report env' = report ?done"
    "cfg env' = cfg ?done" "aspects_started env' = insert ''A'' (aspects_started ?done)"
    "cur_aspect env' = ''A''"
    by auto
  then have skip: "report_started_lazy ''A'' ?done = Inr (True,
        \<lparr>aspects_started = {''A''}, cur_aspect = ''A'', cfg = Map.empty,
         report = [''A'' \<mapsto> JObj [''Done'' \<mapsto> JBool True, ''n'' \<mapsto> JNum 100]]\<rparr>)"
    by (cases env') (simp add: Environment_init_def)
  have "''A'' \<in> aspects_started ?started" by simp
  with report_started_lazy_skip [of "''A''" ?started]
  have dup: "report_started_lazy ''A'' ?started = Inl DuplicateAspectError" by blast
  from skip dup show ?thesis
    by (simp add: Environment_init_def report_started_lazy_def report_started_def
          report_complete_def entry_def)
qed

text \<open>
  The claim without the condition fails. In the run that starts the aspect \<open>A\<close> and
  finishes it with \<^verbatim>\<open>report_ready(true)\<close>, the report document holds \<open>Done\<close> with true
  under \<open>A\<close>, and \<^verbatim>\<open>report_started_lazy\<close> for \<open>A\<close> does not return the skip signal: it
  fails.
\<close>

theorem report_started_lazy_skip_counterexample:
  "run_calls [Report_started ''A'', Report_ready True]
     (Environment_init Map.empty (Map.empty :: string \<rightharpoonup> int JsonValue))
   = Inr \<lparr>aspects_started = {''A''}, cur_aspect = ''A'', cfg = Map.empty,
          report = [''A'' \<mapsto> JObj [''Done'' \<mapsto> JBool True]]\<rparr> \<and>
   entry [''A'' \<mapsto> JObj [''Done'' \<mapsto> JBool True]] ''A'' ''Done''
     = Some (JBool True :: int JsonValue) \<and>
   report_started_lazy ''A''
     \<lparr>aspects_started = {''A''}, cur_aspect = ''A'', cfg = Map.empty,
      report = [''A'' \<mapsto> JObj [''Done'' \<mapsto> JBool True :: int JsonValue]]\<rparr>
   = Inl DuplicateAspectError"
  by (simp add: Environment_init_def report_started_def report_ready_def report_value_eq
        entry_def report_started_lazy_def)

text \<open>
  C9. \<^verbatim>\<open>report_ready\<close> stores the given boolean under \<open>Done\<close> in the report
  sub-document of the current aspect. The cursor is unchanged, the sub-documents of all
  other aspects are unchanged, every other key of the current aspect's sub-document has
  the entry it had, and the configuration document and the started-set are unchanged.
\<close>

theorem report_ready_frame:
  "entry (report (report_ready done env)) (cur_aspect env) ''Done'' = Some (JBool done) \<and>
   cur_aspect (report_ready done env) = cur_aspect env \<and>
   (\<forall>a. a \<noteq> cur_aspect env \<longrightarrow> report (report_ready done env) a = report env a) \<and>
   (\<forall>k. k \<noteq> ''Done'' \<longrightarrow>
      entry (report (report_ready done env)) (cur_aspect env) k
        = entry (report env) (cur_aspect env) k) \<and>
   cfg (report_ready done env) = cfg env \<and>
   aspects_started (report_ready done env) = aspects_started env"
proof -
  have written: "report_ready done env =
      env\<lparr>report := (report env)(cur_aspect env \<mapsto>
        JObj ((obj (case report env (cur_aspect env) of Some x \<Rightarrow> x | None \<Rightarrow> JNull))
                (''Done'' \<mapsto> JBool done)))\<rparr>"
    by (simp add: report_ready_def report_value_eq)
  show ?thesis
    unfolding written by (simp add: entry_upd_same entry_upd_other)
qed

theorem report_ready_frame_witness:
  "report_ready True
     \<lparr>aspects_started = {''x''}, cur_aspect = ''x'', cfg = Map.empty,
      report = [''x'' \<mapsto> JObj [''n'' \<mapsto> JNum (100::int)], ''y'' \<mapsto> JNum 1]\<rparr>
   = \<lparr>aspects_started = {''x''}, cur_aspect = ''x'', cfg = Map.empty,
      report = [''x'' \<mapsto> JObj [''n'' \<mapsto> JNum 100, ''Done'' \<mapsto> JBool True], ''y'' \<mapsto> JNum 1]\<rparr>"
  using report_ready_frame [of True
     "\<lparr>aspects_started = {''x''}, cur_aspect = ''x'', cfg = Map.empty,
      report = [''x'' \<mapsto> JObj [''n'' \<mapsto> JNum (100::int)], ''y'' \<mapsto> JNum 1]\<rparr>"]
  by (simp add: report_ready_def report_value_eq fun_upd_twist)

section \<open>The dependency guard\<close>

text \<open>
  C4. \<^verbatim>\<open>check_dep\<close> fails with \<open>MissingDependencyError\<close> whenever the name is not in
  the started-set, and returns with the environment unchanged when it is. In a run of the
  process from the construction of the environment, with any documents loaded,
  \<^verbatim>\<open>check_dep\<close> for a name fails exactly when neither \<^verbatim>\<open>report_started\<close> nor
  \<^verbatim>\<open>report_started_lazy\<close> has been called for that name earlier in the run; what the
  report document holds for the name plays no part.
\<close>

theorem check_dep_guard:
  "(aspect_name \<notin> aspects_started (env :: 'n Environment) \<longrightarrow>
      check_dep aspect_name env = Inl MissingDependencyError) \<and>
   (aspect_name \<in> aspects_started env \<longrightarrow> check_dep aspect_name env = Inr env) \<and>
   (\<forall>cs c r (env' :: 'n Environment). run_calls cs (Environment_init c r) = Inr env' \<longrightarrow>
      (check_dep aspect_name env' = Inl MissingDependencyError \<longleftrightarrow>
         Report_started aspect_name \<notin> set cs \<and> Report_started_lazy aspect_name \<notin> set cs))"
proof (intro conjI allI impI)
  fix cs c r and env' :: "'n Environment"
  assume run: "run_calls cs (Environment_init c r) = Inr env'"
  from run_calls_started [OF run]
  have "aspects_started env' = (\<Union>c \<in> set cs. started_by c)"
    by (simp add: Environment_init_def)
  with started_by_iff [of aspect_name cs]
  have "aspect_name \<in> aspects_started env' \<longleftrightarrow>
      Report_started aspect_name \<in> set cs \<or> Report_started_lazy aspect_name \<in> set cs"
    by blast
  then show "check_dep aspect_name env' = Inl MissingDependencyError \<longleftrightarrow>
         Report_started aspect_name \<notin> set cs \<and> Report_started_lazy aspect_name \<notin> set cs"
    by (simp add: check_dep_def)
qed (simp_all add: check_dep_def)

theorem check_dep_guard_witness:
  "run_calls [Report_started ''A'', Report_value ''n'' (JNum 1), Report_ready True]
     (Environment_init Map.empty [''B'' \<mapsto> JObj [''Done'' \<mapsto> JBool True]])
   = Inr \<lparr>aspects_started = {''A''}, cur_aspect = ''A'', cfg = Map.empty,
          report = [''B'' \<mapsto> JObj [''Done'' \<mapsto> JBool True],
                    ''A'' \<mapsto> JObj [''n'' \<mapsto> JNum (1::int), ''Done'' \<mapsto> JBool True]]\<rparr> \<and>
   check_dep ''B''
     \<lparr>aspects_started = {''A''}, cur_aspect = ''A'', cfg = Map.empty,
      report = [''B'' \<mapsto> JObj [''Done'' \<mapsto> JBool True],
                ''A'' \<mapsto> JObj [''n'' \<mapsto> JNum (1::int), ''Done'' \<mapsto> JBool True]]\<rparr>
   = Inl MissingDependencyError \<and>
   check_dep ''A''
     \<lparr>aspects_started = {''A''}, cur_aspect = ''A'', cfg = Map.empty,
      report = [''B'' \<mapsto> JObj [''Done'' \<mapsto> JBool True],
                ''A'' \<mapsto> JObj [''n'' \<mapsto> JNum (1::int), ''Done'' \<mapsto> JBool True]]\<rparr>
   = Inr \<lparr>aspects_started = {''A''}, cur_aspect = ''A'', cfg = Map.empty,
      report = [''B'' \<mapsto> JObj [''Done'' \<mapsto> JBool True],
                ''A'' \<mapsto> JObj [''n'' \<mapsto> JNum (1::int), ''Done'' \<mapsto> JBool True]]\<rparr>"
proof -
  let ?env = "\<lparr>aspects_started = {''A''}, cur_aspect = ''A'', cfg = Map.empty,
      report = [''B'' \<mapsto> JObj [''Done'' \<mapsto> JBool True],
                ''A'' \<mapsto> JObj [''n'' \<mapsto> JNum (1::int), ''Done'' \<mapsto> JBool True]]\<rparr>"
  let ?cs = "[Report_started ''A'', Report_value ''n'' (JNum (1::int)), Report_ready True]"
  have run: "run_calls ?cs (Environment_init Map.empty [''B'' \<mapsto> JObj [''Done'' \<mapsto> JBool True]])
      = Inr ?env"
    by (simp add: Environment_init_def report_started_def report_ready_def report_value_eq)
  from check_dep_guard [of "''B''" ?env] run
  have "check_dep ''B'' ?env = Inl MissingDependencyError \<longleftrightarrow>
          Report_started ''B'' \<notin> set ?cs \<and> Report_started_lazy ''B'' \<notin> set ?cs"
    by blast
  then have b: "check_dep ''B'' ?env = Inl MissingDependencyError" by simp
  have a: "check_dep ''A'' ?env = Inr ?env" by (simp add: check_dep_def)
  from run a b show ?thesis by simp
qed

section \<open>Calibration of the iteration count\<close>









end
